theory Spec2Isabelle
  imports
    Complex_Main
    "HOL-Library.Sublist"
    "HOL-Library.Char_ord"
    "HOL-Library.List_Lexorder"
begin

section \<open>The invoice dashboard: filtering, aggregation, pagination, facets\<close>

text \<open>
  The development embeds the data pipeline of \<^verbatim>\<open>client/src/pages/Dashboard.tsx\<close>:
  the \<^verbatim>\<open>filteredData\<close> memo, the \<^verbatim>\<open>stats\<close> memo, \<^verbatim>\<open>totalPages\<close>,
  \<^verbatim>\<open>currentData\<close>, \<^verbatim>\<open>handlePageChange\<close> and the four \<^verbatim>\<open>unique...\<close> facet memos.
  The component is written against the JavaScript runtime, so the first part models the
  pieces of the runtime the component calls.
\<close>

subsection \<open>JavaScript numbers\<close>

text \<open>
  A JavaScript number is a finite value, one of the two infinities, or NaN. Finite values
  are reals here: comparison of doubles is comparison of their values, but the rounding of
  \<^verbatim>\<open>+\<close> and \<^verbatim>\<open>/\<close> to the nearest double, overflow to an infinity and the sign of
  zero are not modelled.
\<close>

datatype jsnum = NaN | NegInf | Fin real | PosInf

text \<open>The relational operators \<^verbatim>\<open><\<close>, \<^verbatim>\<open>></\<close> and \<^verbatim>\<open><=\<close>: every comparison with NaN
  is false.\<close>

fun jslt :: "jsnum \<Rightarrow> jsnum \<Rightarrow> bool" where
  "jslt NaN _ = False"
| "jslt _ NaN = False"
| "jslt NegInf NegInf = False"
| "jslt NegInf _ = True"
| "jslt _ NegInf = False"
| "jslt PosInf _ = False"
| "jslt (Fin a) (Fin b) = (a < b)"
| "jslt (Fin a) PosInf = True"

definition jsgt :: "jsnum \<Rightarrow> jsnum \<Rightarrow> bool" where
  "jsgt a b = jslt b a"

definition jsle :: "jsnum \<Rightarrow> jsnum \<Rightarrow> bool" where
  "jsle a b = (a \<noteq> NaN \<and> b \<noteq> NaN \<and> \<not> jslt b a)"

fun jsadd :: "jsnum \<Rightarrow> jsnum \<Rightarrow> jsnum" where
  "jsadd NaN _ = NaN"
| "jsadd _ NaN = NaN"
| "jsadd PosInf NegInf = NaN"
| "jsadd NegInf PosInf = NaN"
| "jsadd PosInf _ = PosInf"
| "jsadd _ PosInf = PosInf"
| "jsadd NegInf _ = NegInf"
| "jsadd _ NegInf = NegInf"
| "jsadd (Fin a) (Fin b) = Fin (a + b)"

text \<open>Division; a zero divisor is taken as \<^verbatim>\<open>+0\<close>.\<close>

fun jsdiv :: "jsnum \<Rightarrow> jsnum \<Rightarrow> jsnum" where
  "jsdiv NaN _ = NaN"
| "jsdiv _ NaN = NaN"
| "jsdiv (Fin a) (Fin b) =
     (if b = 0 then (if a = 0 then NaN else if 0 < a then PosInf else NegInf)
      else Fin (a / b))"
| "jsdiv (Fin a) _ = Fin 0"
| "jsdiv PosInf (Fin b) = (if 0 \<le> b then PosInf else NegInf)"
| "jsdiv NegInf (Fin b) = (if 0 \<le> b then NegInf else PosInf)"
| "jsdiv _ _ = NaN"

text \<open>\<^verbatim>\<open>Math.max\<close> and \<^verbatim>\<open>Math.min\<close> of an argument list: NaN is contagious, the
  empty list gives the neutral infinity.\<close>

definition jsmax2 :: "jsnum \<Rightarrow> jsnum \<Rightarrow> jsnum" where
  "jsmax2 a b = (if a = NaN \<or> b = NaN then NaN else if jslt a b then b else a)"

definition jsmin2 :: "jsnum \<Rightarrow> jsnum \<Rightarrow> jsnum" where
  "jsmin2 a b = (if a = NaN \<or> b = NaN then NaN else if jslt b a then b else a)"

definition Math_max :: "jsnum list \<Rightarrow> jsnum" where
  "Math_max xs = foldl jsmax2 NegInf xs"

definition Math_min :: "jsnum list \<Rightarrow> jsnum" where
  "Math_min xs = foldl jsmin2 PosInf xs"

text \<open>
  The amount field is declared \<^verbatim>\<open>number\<close>, but the component tests it against
  \<^verbatim>\<open>null\<close> and \<^verbatim>\<open>undefined\<close> at run time, so the field holds one of those or a
  number. \<^verbatim>\<open>ToNumber\<close> is the conversion the operators \<^verbatim>\<open><\<close>, \<^verbatim>\<open>></\<close> and
  \<^verbatim>\<open>isNaN\<close> apply to their operands.
\<close>

datatype jsval = Null | Undefined | Number jsnum

fun ToNumber :: "jsval \<Rightarrow> jsnum" where
  "ToNumber Null = Fin 0"
| "ToNumber Undefined = NaN"
| "ToNumber (Number n) = n"

definition isNaN :: "jsval \<Rightarrow> bool" where
  "isNaN v = (ToNumber v = NaN)"

subsection \<open>JavaScript strings\<close>

text \<open>
  Strings are lists of characters. \<^verbatim>\<open>toLowerCase\<close> and \<^verbatim>\<open>trim\<close> are modelled on
  the ASCII range (letters \<^verbatim>\<open>A\<close> to \<^verbatim>\<open>Z\<close>; space, tab, line feed, vertical tab,
  form feed, carriage return); a string is truthy when it is not empty.
\<close>

definition truthy :: "string \<Rightarrow> bool" where
  "truthy s = (s \<noteq> [])"

definition lowerChar :: "char \<Rightarrow> char" where
  "lowerChar c =
     (let n = (of_char c :: nat) in if 65 \<le> n \<and> n \<le> 90 then char_of (n + 32) else c)"

definition toLowerCase :: "string \<Rightarrow> string" where
  "toLowerCase s = map lowerChar s"

definition isWhiteSpace :: "char \<Rightarrow> bool" where
  "isWhiteSpace c = ((of_char c :: nat) \<in> {9, 10, 11, 12, 13, 32})"

definition trim :: "string \<Rightarrow> string" where
  "trim s = rev (dropWhile isWhiteSpace (rev (dropWhile isWhiteSpace s)))"

text \<open>\<^verbatim>\<open>s.includes(k)\<close>: \<open>k\<close> occurs in \<open>s\<close> as a contiguous substring.\<close>

fun String_includes :: "string \<Rightarrow> string \<Rightarrow> bool" where
  "String_includes [] k = (k = [])"
| "String_includes (c # s) k = (prefix k (c # s) \<or> String_includes s k)"

subsection \<open>\<^verbatim>\<open>parseFloat\<close>\<close>

text \<open>
  \<^verbatim>\<open>parseFloat\<close> skips leading white space and reads the longest prefix that is a
  decimal literal: an optional sign, then \<^verbatim>\<open>Infinity\<close> or digits with an optional
  fraction and an optional exponent. Without such a prefix the result is NaN. The value is
  the exact decimal value.
\<close>

definition isDigit :: "char \<Rightarrow> bool" where
  "isDigit c = (let n = (of_char c :: nat) in 48 \<le> n \<and> n \<le> 57)"

definition digitVal :: "char \<Rightarrow> nat" where
  "digitVal c = of_char c - 48"

definition decimal :: "string \<Rightarrow> nat" where
  "decimal ds = foldl (\<lambda>acc c. 10 * acc + digitVal c) 0 ds"

fun readSign :: "string \<Rightarrow> int \<times> string" where
  "readSign [] = (1, [])"
| "readSign (c # s) =
     (if c = CHR ''+'' then (1, s) else if c = CHR ''-'' then (-1, s) else (1, c # s))"

fun readFraction :: "string \<Rightarrow> string \<times> string" where
  "readFraction [] = ([], [])"
| "readFraction (c # s) =
     (if c = CHR ''.'' then (takeWhile isDigit s, dropWhile isDigit s) else ([], c # s))"

fun readExponent :: "string \<Rightarrow> int" where
  "readExponent [] = 0"
| "readExponent (c # s) =
     (if c = CHR ''e'' \<or> c = CHR ''E'' then
        (let (sg, r) = readSign s; ds = takeWhile isDigit r
         in if ds = [] then 0 else sg * int (decimal ds))
      else 0)"

definition scale10 :: "real \<Rightarrow> int \<Rightarrow> real" where
  "scale10 x e = (if 0 \<le> e then x * 10 ^ nat e else x / 10 ^ nat (- e))"

definition parseFloat :: "string \<Rightarrow> jsnum" where
  "parseFloat s =
     (let (sg, s2) = readSign (dropWhile isWhiteSpace s) in
      if prefix ''Infinity'' s2 then (if sg = 1 then PosInf else NegInf)
      else
        let ip = takeWhile isDigit s2;
            (fp, r2) = readFraction (dropWhile isDigit s2)
        in if ip = [] \<and> fp = [] then NaN
           else Fin (scale10
                  (real_of_int sg * (real (decimal ip) + real (decimal fp) / 10 ^ length fp))
                  (readExponent r2)))"

subsection \<open>Dates\<close>

text \<open>
  A \<^verbatim>\<open>Date\<close> object holds a time value: milliseconds since the epoch, or NaN for an
  invalid date (\<open>None\<close>). \<^verbatim>\<open>new Date(s)\<close> on a string is \<^verbatim>\<open>Date.parse\<close>, whose
  accepted formats depend on the engine beyond the ISO format, and local time depends on
  the time zone of the machine: the three are taken from the runtime.
\<close>

type_synonym jsdate = "int option"

record runtime =
  Date_parse :: "string \<Rightarrow> jsdate"
  LocalTime :: "int \<Rightarrow> int"
  UTC :: "int \<Rightarrow> int"

definition msPerDay :: int where
  "msPerDay = 86400000"

definition MakeTime :: "int \<Rightarrow> int \<Rightarrow> int \<Rightarrow> int \<Rightarrow> int" where
  "MakeTime h m s ms = ((h * 60 + m) * 60 + s) * 1000 + ms"

text \<open>\<^verbatim>\<open>d.setHours(h, m, s, ms)\<close>: the local calendar day of \<open>d\<close> is kept and the local
  time within the day is replaced; an invalid date stays invalid.\<close>

definition Date_setHours :: "runtime \<Rightarrow> jsdate \<Rightarrow> int \<Rightarrow> int \<Rightarrow> int \<Rightarrow> int \<Rightarrow> jsdate" where
  "Date_setHours rt d h m s ms =
     (case d of
        None \<Rightarrow> None
      | Some t \<Rightarrow> Some (UTC rt ((LocalTime rt t div msPerDay) * msPerDay + MakeTime h m s ms)))"

text \<open>The operators \<^verbatim>\<open><\<close> and \<^verbatim>\<open>></\<close> on two dates compare their time values as
  numbers.\<close>

definition timeValue :: "jsdate \<Rightarrow> jsnum" where
  "timeValue d = (case d of None \<Rightarrow> NaN | Some t \<Rightarrow> Fin (real_of_int t))"

text \<open>
  A runtime with a fixed offset \<open>tza\<close> (milliseconds east of UTC) that parses the ISO
  forms \<^verbatim>\<open>YYYY-MM-DD\<close> (read as UTC), \<^verbatim>\<open>YYYY-MM-DDTHH:mm\<close> and
  \<^verbatim>\<open>YYYY-MM-DDTHH:mm:ss\<close> (read as local time) and nothing else. It serves the
  concrete evaluations; the general results hold for every runtime.
\<close>

definition twoDigits :: "string \<Rightarrow> nat option" where
  "twoDigits s = (if length s = 2 \<and> list_all isDigit s then Some (decimal s) else None)"

definition isLeapYear :: "nat \<Rightarrow> bool" where
  "isLeapYear y = (y mod 4 = 0 \<and> (0 < y mod 100 \<or> y mod 400 = 0))"

definition daysInMonth :: "nat \<Rightarrow> nat \<Rightarrow> nat" where
  "daysInMonth y m =
     (if m = 2 then (if isLeapYear y then 29 else 28)
      else if m = 4 \<or> m = 6 \<or> m = 9 \<or> m = 11 then 30 else 31)"

text \<open>Days from 1970-01-01 to the given day of the proleptic Gregorian calendar.\<close>

definition daysFromCivil :: "int \<Rightarrow> int \<Rightarrow> int \<Rightarrow> int" where
  "daysFromCivil y m d =
     (let y' = (if m \<le> 2 then y - 1 else y);
          era = y' div 400;
          yoe = y' - era * 400;
          doy = (153 * (if 2 < m then m - 3 else m + 9) + 2) div 5 + d - 1;
          doe = yoe * 365 + yoe div 4 - yoe div 100 + doy
      in era * 146097 + doe - 719468)"

definition isoDate :: "string \<Rightarrow> int option" where
  "isoDate s =
     (if length s = 10 \<and> list_all isDigit (take 4 s) \<and> s ! 4 = CHR ''-'' \<and> s ! 7 = CHR ''-''
      then
        (case (twoDigits (take 2 (drop 5 s)), twoDigits (drop 8 s)) of
           (Some m, Some d) \<Rightarrow>
             (let y = decimal (take 4 s) in
              if 1 \<le> m \<and> m \<le> 12 \<and> 1 \<le> d \<and> d \<le> daysInMonth y m
              then Some (daysFromCivil (int y) (int m) (int d) * msPerDay) else None)
         | _ \<Rightarrow> None)
      else None)"

definition isoTime :: "string \<Rightarrow> int option" where
  "isoTime s =
     (if (length s = 5 \<or> length s = 8 \<and> s ! 5 = CHR '':'') \<and> s ! 2 = CHR '':'' then
        (case (twoDigits (take 2 s), twoDigits (take 2 (drop 3 s)),
               if length s = 5 then Some 0 else twoDigits (drop 6 s)) of
           (Some h, Some m, Some sec) \<Rightarrow>
             (if h \<le> 23 \<and> m \<le> 59 \<and> sec \<le> 59
              then Some (MakeTime (int h) (int m) (int sec) 0) else None)
         | _ \<Rightarrow> None)
      else None)"

definition isoParse :: "int \<Rightarrow> string \<Rightarrow> jsdate" where
  "isoParse tza s =
     (if length s = 10 then isoDate s
      else if 10 < length s \<and> s ! 10 = CHR ''T'' then
        (case (isoDate (take 10 s), isoTime (drop 11 s)) of
           (Some d, Some t) \<Rightarrow> Some (d + t - tza)
         | _ \<Rightarrow> None)
      else None)"

definition fixedZone :: "int \<Rightarrow> runtime" where
  "fixedZone tza =
     \<lparr>Date_parse = isoParse tza, LocalTime = (\<lambda>t. t + tza), UTC = (\<lambda>t. t - tza)\<rparr>"

subsection \<open>Data model and component state\<close>

text \<open>
  The record \<^verbatim>\<open>InvoiceData\<close>. Its field names are Chinese in the source; they are
  rendered in English here: invoice number, invoice (issuing) company, billing
  (receiving) company, time, product name, default specification, quantity and total
  price with tax.
\<close>

record InvoiceData =
  invoiceNo :: string
  invoiceCompany :: string
  billingCompany :: string
  timeStr :: string
  productName :: string
  defaultSpec :: "string option"
  quantity :: int
  totalWithTax :: jsval

record DateRange =
  dr_start :: string
  dr_end :: string

record PriceRange =
  pr_min :: string
  pr_max :: string

text \<open>The \<^verbatim>\<open>useState\<close> variables of the component that the pipeline reads or writes.\<close>

record Dashboard =
  searchKeyword :: string
  invoiceData :: "InvoiceData list"
  selectedCompany :: string
  dateRange :: DateRange
  priceRange :: PriceRange
  selectedProduct :: string
  selectedBillingCompany :: string
  selectedInvoiceCompany :: string
  currentPage :: int

definition pageSize :: int where
  "pageSize = 10"

subsection \<open>The filter\<close>

definition matchesKeyword :: "string \<Rightarrow> InvoiceData \<Rightarrow> bool" where
  "matchesKeyword keyword item =
     ((truthy (invoiceNo item) \<and> String_includes (toLowerCase (invoiceNo item)) keyword) \<or>
      (truthy (invoiceCompany item) \<and> String_includes (toLowerCase (invoiceCompany item)) keyword) \<or>
      (truthy (billingCompany item) \<and> String_includes (toLowerCase (billingCompany item)) keyword) \<or>
      (truthy (productName item) \<and> String_includes (toLowerCase (productName item)) keyword))"

text \<open>The date range block: \<open>True\<close> when it executes \<^verbatim>\<open>return false\<close>.\<close>

definition dateRangeRejects :: "runtime \<Rightarrow> DateRange \<Rightarrow> InvoiceData \<Rightarrow> bool" where
  "dateRangeRejects rt dr item =
     (if truthy (dr_start dr) \<or> truthy (dr_end dr) then
        (let itemDate = Date_parse rt (timeStr item) in
         if truthy (dr_start dr) \<and>
            jslt (timeValue itemDate) (timeValue (Date_parse rt (dr_start dr)))
         then True
         else if truthy (dr_end dr) \<and>
            jsgt (timeValue itemDate)
              (timeValue (Date_setHours rt (Date_parse rt (dr_end dr)) 23 59 59 999))
         then True
         else False)
      else False)"

definition minPrice :: "PriceRange \<Rightarrow> jsnum" where
  "minPrice pr = (if truthy (pr_min pr) then parseFloat (pr_min pr) else Fin 0)"

definition maxPrice :: "PriceRange \<Rightarrow> jsnum" where
  "maxPrice pr = (if truthy (pr_max pr) then parseFloat (pr_max pr) else PosInf)"

text \<open>The price range block: \<open>True\<close> when it executes \<^verbatim>\<open>return false\<close>.\<close>

definition priceRangeRejects :: "PriceRange \<Rightarrow> InvoiceData \<Rightarrow> bool" where
  "priceRangeRejects pr item =
     (if truthy (pr_min pr) \<or> truthy (pr_max pr) then
        jslt (ToNumber (totalWithTax item)) (minPrice pr) \<or>
        jsgt (ToNumber (totalWithTax item)) (maxPrice pr)
      else False)"

text \<open>
  The callback given to \<^verbatim>\<open>invoiceData.filter\<close>. It calls \<^verbatim>\<open>setCurrentPage(1)\<close> just
  before \<^verbatim>\<open>return true\<close>, so it takes the pending page number and returns it with
  the verdict.
\<close>

definition filterItem :: "runtime \<Rightarrow> Dashboard \<Rightarrow> InvoiceData \<Rightarrow> int \<Rightarrow> bool \<times> int" where
  "filterItem rt st item page =
     (if truthy (trim (searchKeyword st)) \<and>
         \<not> matchesKeyword (toLowerCase (searchKeyword st)) item then (False, page)
      else if truthy (selectedProduct st) \<and> productName item \<noteq> selectedProduct st
        then (False, page)
      else if truthy (selectedBillingCompany st) \<and>
              billingCompany item \<noteq> selectedBillingCompany st
        then (False, page)
      else if truthy (selectedInvoiceCompany st) \<and>
              invoiceCompany item \<noteq> selectedInvoiceCompany st
        then (False, page)
      else if dateRangeRejects rt (dateRange st) item then (False, page)
      else if priceRangeRejects (priceRange st) item then (False, page)
      else (True, 1))"

text \<open>\<^verbatim>\<open>Array.prototype.filter\<close> with a callback that has an effect on a state \<open>'s\<close>:
  the elements are visited in order and the state is threaded through the calls.\<close>

fun Array_filter :: "('a \<Rightarrow> 's \<Rightarrow> bool \<times> 's) \<Rightarrow> 'a list \<Rightarrow> 's \<Rightarrow> 'a list \<times> 's" where
  "Array_filter f [] s = ([], s)"
| "Array_filter f (x # xs) s =
     (let (keep, s1) = f x s; (ys, s2) = Array_filter f xs s1
      in (if keep then x # ys else ys, s2))"

text \<open>One evaluation of the \<^verbatim>\<open>filteredData\<close> memo: the filtered list and the page
  number that the calls of \<^verbatim>\<open>setCurrentPage\<close> leave behind.\<close>

definition computeFiltered :: "runtime \<Rightarrow> Dashboard \<Rightarrow> InvoiceData list \<times> int" where
  "computeFiltered rt st = Array_filter (filterItem rt st) (invoiceData st) (currentPage st)"

definition filteredData :: "runtime \<Rightarrow> Dashboard \<Rightarrow> InvoiceData list" where
  "filteredData rt st = fst (computeFiltered rt st)"

subsection \<open>Pagination\<close>

text \<open>\<^verbatim>\<open>Array.prototype.slice(start, end)\<close> on integer arguments: a negative index
  counts from the end, and both are clamped to the array.\<close>

definition Array_slice :: "'a list \<Rightarrow> int \<Rightarrow> int \<Rightarrow> 'a list" where
  "Array_slice xs start fin =
     (let len = int (length xs);
          k = (if start < 0 then max (len + start) 0 else min start len);
          final = (if fin < 0 then max (len + fin) 0 else min fin len)
      in take (nat (final - k)) (drop (nat k) xs))"

definition totalPages :: "runtime \<Rightarrow> Dashboard \<Rightarrow> int" where
  "totalPages rt st = \<lceil>real (length (filteredData rt st)) / real_of_int pageSize\<rceil>"

definition currentData :: "runtime \<Rightarrow> Dashboard \<Rightarrow> InvoiceData list" where
  "currentData rt st =
     Array_slice (filteredData rt st) ((currentPage st - 1) * pageSize) (currentPage st * pageSize)"

definition handlePageChange :: "runtime \<Rightarrow> Dashboard \<Rightarrow> int \<Rightarrow> Dashboard" where
  "handlePageChange rt st page =
     (if page < 1 \<or> page > totalPages rt st then st else st\<lparr>currentPage := page\<rparr>)"

subsection \<open>Changing the filters\<close>

text \<open>
  The state setters that feed the dependency list of the \<^verbatim>\<open>filteredData\<close> memo, and
  \<^verbatim>\<open>clearFilters\<close>. After a setter the component renders again; the memo is evaluated
  again when a dependency differs from the previous render, and the \<^verbatim>\<open>setCurrentPage\<close>
  calls made during that evaluation give the next page number. Dependencies are compared
  by value here.
\<close>

datatype action =
    SetSearchKeyword string
  | SetInvoiceData "InvoiceData list"
  | SetSelectedCompany string
  | SetDateRange DateRange
  | SetPriceRange PriceRange
  | SetSelectedProduct string
  | SetSelectedBillingCompany string
  | SetSelectedInvoiceCompany string
  | ClearFilters

fun setState :: "action \<Rightarrow> Dashboard \<Rightarrow> Dashboard" where
  "setState (SetSearchKeyword v) st = st\<lparr>searchKeyword := v\<rparr>"
| "setState (SetInvoiceData v) st = st\<lparr>invoiceData := v\<rparr>"
| "setState (SetSelectedCompany v) st = st\<lparr>selectedCompany := v\<rparr>"
| "setState (SetDateRange v) st = st\<lparr>dateRange := v\<rparr>"
| "setState (SetPriceRange v) st = st\<lparr>priceRange := v\<rparr>"
| "setState (SetSelectedProduct v) st = st\<lparr>selectedProduct := v\<rparr>"
| "setState (SetSelectedBillingCompany v) st = st\<lparr>selectedBillingCompany := v\<rparr>"
| "setState (SetSelectedInvoiceCompany v) st = st\<lparr>selectedInvoiceCompany := v\<rparr>"
| "setState ClearFilters st =
     st\<lparr>selectedCompany := [], dateRange := \<lparr>dr_start = [], dr_end = []\<rparr>,
        priceRange := \<lparr>pr_min = [], pr_max = []\<rparr>, searchKeyword := [],
        selectedProduct := [], selectedBillingCompany := [], selectedInvoiceCompany := []\<rparr>"

definition deps ::
  "Dashboard \<Rightarrow>
   string \<times> InvoiceData list \<times> string \<times> string \<times> string \<times> string \<times> DateRange \<times> PriceRange"
where
  "deps st =
     (searchKeyword st, invoiceData st, selectedCompany st, selectedProduct st,
      selectedBillingCompany st, selectedInvoiceCompany st, dateRange st, priceRange st)"

definition rerender :: "runtime \<Rightarrow> Dashboard \<Rightarrow> Dashboard \<Rightarrow> Dashboard" where
  "rerender rt prev st =
     (if deps st = deps prev then st else st\<lparr>currentPage := snd (computeFiltered rt st)\<rparr>)"

definition dispatch :: "runtime \<Rightarrow> action \<Rightarrow> Dashboard \<Rightarrow> Dashboard" where
  "dispatch rt a st = rerender rt st (setState a st)"

subsection \<open>Aggregation\<close>

record AggregationStats =
  totalInvoices :: nat
  totalAmount :: jsnum
  averageAmount :: jsnum
  maxAmount :: jsnum
  minAmount :: jsnum
  companyCount :: nat
  productCount :: nat

definition zeroStats :: AggregationStats where
  "zeroStats =
     \<lparr>totalInvoices = 0, totalAmount = Fin 0, averageAmount = Fin 0, maxAmount = Fin 0,
      minAmount = Fin 0, companyCount = 0, productCount = 0\<rparr>"

text \<open>\<^verbatim>\<open>new Set(xs)\<close> keeps the first occurrence of every value, in insertion order.\<close>

definition Set_of :: "'a list \<Rightarrow> 'a list" where
  "Set_of xs = rev (remdups (rev xs))"

definition validAmounts :: "InvoiceData list \<Rightarrow> jsval list" where
  "validAmounts view =
     filter (\<lambda>amount. amount \<noteq> Null \<and> amount \<noteq> Undefined \<and> \<not> isNaN amount)
       (map totalWithTax view)"

text \<open>The \<^verbatim>\<open>stats\<close> memo, as a function of the filtered list.\<close>

definition stats :: "InvoiceData list \<Rightarrow> AggregationStats" where
  "stats view =
     (if length view = 0 then zeroStats
      else
        let amounts = validAmounts view in
        if length amounts = 0 then zeroStats
        else
          let total = foldl (\<lambda>sum amount. jsadd sum (ToNumber amount)) (Fin 0) amounts;
              companies = Set_of (map invoiceCompany view);
              products = Set_of (map productName view)
          in \<lparr>totalInvoices = length view,
              totalAmount = total,
              averageAmount = jsdiv total (Fin (real (length amounts))),
              maxAmount = Math_max (map ToNumber amounts),
              minAmount = Math_min (map ToNumber amounts),
              companyCount = length companies,
              productCount = length products\<rparr>)"

subsection \<open>Facets\<close>

text \<open>
  \<^verbatim>\<open>Array.from(new Set(xs.filter(Boolean))).sort()\<close>: the default sort orders strings
  by their code units, which is the lexicographic order of character lists here.
\<close>

definition facet :: "string list \<Rightarrow> string list" where
  "facet xs = sort (Set_of (filter truthy xs))"

definition uniqueCompanies :: "Dashboard \<Rightarrow> string list" where
  "uniqueCompanies st = facet (map invoiceCompany (invoiceData st))"

definition uniqueProducts :: "Dashboard \<Rightarrow> string list" where
  "uniqueProducts st = facet (map productName (invoiceData st))"

definition uniqueBillingCompanies :: "Dashboard \<Rightarrow> string list" where
  "uniqueBillingCompanies st = facet (map billingCompany (invoiceData st))"

definition uniqueInvoiceCompanies :: "Dashboard \<Rightarrow> string list" where
  "uniqueInvoiceCompanies st = facet (map invoiceCompany (invoiceData st))"

subsection \<open>The verdict of the filter callback, and the states the component can reach\<close>

definition passes :: "runtime \<Rightarrow> Dashboard \<Rightarrow> InvoiceData \<Rightarrow> bool" where
  "passes rt st item = fst (filterItem rt st item (currentPage st))"

text \<open>The state of the first render: every \<^verbatim>\<open>useState\<close> initial value.\<close>

definition initialDashboard :: Dashboard where
  "initialDashboard =
     \<lparr>searchKeyword = [], invoiceData = [], selectedCompany = [],
      dateRange = \<lparr>dr_start = [], dr_end = []\<rparr>, priceRange = \<lparr>pr_min = [], pr_max = []\<rparr>,
      selectedProduct = [], selectedBillingCompany = [], selectedInvoiceCompany = [],
      currentPage = 1\<rparr>"

inductive reachable :: "runtime \<Rightarrow> Dashboard \<Rightarrow> bool" for rt :: runtime where
  initial: "reachable rt initialDashboard"
| setter: "reachable rt st \<Longrightarrow> reachable rt (dispatch rt a st)"
| pageChange: "reachable rt st \<Longrightarrow> reachable rt (handlePageChange rt st page)"

text \<open>Actions that change a filter and leave the loaded records alone.\<close>

fun isFilterAction :: "action \<Rightarrow> bool" where
  "isFilterAction (SetInvoiceData v) = False"
| "isFilterAction _ = True"

subsection \<open>Sample data for the concrete evaluations\<close>

definition sampleInvoice :: "string \<Rightarrow> string \<Rightarrow> jsval \<Rightarrow> InvoiceData" where
  "sampleInvoice no t amount =
     \<lparr>invoiceNo = no, invoiceCompany = ''abcCorp'', billingCompany = ''xyz'', timeStr = t,
      productName = ''widget'', defaultSpec = None, quantity = 1, totalWithTax = amount\<rparr>"

definition loaded :: "InvoiceData list \<Rightarrow> int \<Rightarrow> Dashboard" where
  "loaded records page = initialDashboard\<lparr>invoiceData := records, currentPage := page\<rparr>"

definition january :: DateRange where
  "january = \<lparr>dr_start = ''2024-01-01'', dr_end = ''2024-01-31''\<rparr>"

definition fourAmounts :: "InvoiceData list" where
  "fourAmounts =
     [sampleInvoice ''A1'' ''2024-01-05'' (Number (Fin 100)),
      sampleInvoice ''A2'' ''2024-01-06'' (Number (Fin 200)),
      sampleInvoice ''A3'' ''2024-01-07'' (Number NaN),
      sampleInvoice ''A4'' ''2024-01-08'' (Number (Fin 300))]"

definition allInvalid :: "InvoiceData list" where
  "allInvalid =
     [sampleInvoice ''N1'' ''2024-01-05'' (Number NaN),
      sampleInvoice ''N2'' ''2024-01-06'' Null,
      sampleInvoice ''N3'' ''2024-01-07'' Undefined]"

definition minHundred :: PriceRange where
  "minHundred = \<lparr>pr_min = ''100'', pr_max = []\<rparr>"

definition undated :: InvoiceData where
  "undated = sampleInvoice ''U1'' ''not a date'' (Number (Fin 10))"

definition mixedProducts :: "InvoiceData list" where
  "mixedProducts =
     [(sampleInvoice ''M1'' ''2024-01-05'' (Number (Fin 10)))\<lparr>productName := ''nut''\<rparr>,
      (sampleInvoice ''M2'' ''2024-01-06'' (Number (Fin 20)))\<lparr>productName := []\<rparr>,
      (sampleInvoice ''M3'' ''2024-01-07'' (Number (Fin 30)))\<lparr>productName := ''bolt''\<rparr>,
      (sampleInvoice ''M4'' ''2024-01-08'' (Number (Fin 40)))\<lparr>productName := ''nut''\<rparr>]"

definition lateJanuary :: InvoiceData where
  "lateJanuary = sampleInvoice ''J1'' ''2024-01-31T23:00'' (Number (Fin 10))"

definition earlyFebruary :: InvoiceData where
  "earlyFebruary = sampleInvoice ''F1'' ''2024-02-01T00:00'' (Number (Fin 10))"

definition earlyJanuary :: InvoiceData where
  "earlyJanuary = sampleInvoice ''J0'' ''2024-01-01T03:00'' (Number (Fin 10))"

definition twentyFive :: "InvoiceData list" where
  "twentyFive = replicate 25 (sampleInvoice ''B'' ''2024-01-05'' (Number (Fin 10)))"

section \<open>Properties\<close>

subsection \<open>The filter as a pure predicate\<close>

lemma filterItem_passes:
  "filterItem rt st item page = (if passes rt st item then (True, 1) else (False, page))"
  by (simp add: passes_def filterItem_def)

lemma Array_filter_filterItem:
  "Array_filter (filterItem rt st) xs page =
     (filter (passes rt st) xs, if \<exists>x\<in>set xs. passes rt st x then 1 else page)"
  by (induction xs arbitrary: page) (auto simp: filterItem_passes)

lemma filteredData_filter: "filteredData rt st = filter (passes rt st) (invoiceData st)"
  by (simp add: filteredData_def computeFiltered_def Array_filter_filterItem)

lemma computeFiltered_page:
  "snd (computeFiltered rt st) = (if filteredData rt st = [] then currentPage st else 1)"
  by (auto simp: filteredData_filter computeFiltered_def Array_filter_filterItem
      filter_empty_conv)

lemma passes_iff:
  "passes rt st item \<longleftrightarrow>
     (truthy (trim (searchKeyword st)) \<longrightarrow>
        matchesKeyword (toLowerCase (searchKeyword st)) item) \<and>
     (truthy (selectedProduct st) \<longrightarrow> productName item = selectedProduct st) \<and>
     (truthy (selectedBillingCompany st) \<longrightarrow>
        billingCompany item = selectedBillingCompany st) \<and>
     (truthy (selectedInvoiceCompany st) \<longrightarrow>
        invoiceCompany item = selectedInvoiceCompany st) \<and>
     \<not> dateRangeRejects rt (dateRange st) item \<and>
     \<not> priceRangeRejects (priceRange st) item"
  by (auto simp: passes_def filterItem_def)

lemma filteredData_loaded: "filteredData rt (loaded records page) = records"
  by (simp add: filteredData_filter passes_iff loaded_def initialDashboard_def truthy_def
      trim_def dateRangeRejects_def priceRangeRejects_def)

subsection \<open>Numbers\<close>

lemma jslt_NaN_right [simp]: "\<not> jslt a NaN"
  by (cases a) simp_all

lemma jsle_Fin [simp]: "jsle (Fin a) (Fin b) \<longleftrightarrow> a \<le> b"
  by (auto simp: jsle_def)

lemma jsle_PosInf [simp]: "jsle (Fin a) PosInf"
  by (simp add: jsle_def)

lemma parseFloat_100: "parseFloat ''100'' = Fin 100"
  by (simp add: parseFloat_def isWhiteSpace_def isDigit_def decimal_def digitVal_def
      scale10_def)

subsection \<open>Aggregation\<close>

lemma validAmounts_empty_iff:
  "validAmounts view = [] \<longleftrightarrow>
     (\<forall>r\<in>set view. totalWithTax r = Null \<or> totalWithTax r = Undefined \<or>
        totalWithTax r = Number NaN)"
proof -
  have "isNaN v \<longleftrightarrow> v = Undefined \<or> v = Number NaN" for v
    by (cases v) (simp_all add: isNaN_def)
  then show ?thesis
    by (auto simp: validAmounts_def filter_empty_conv)
qed

text \<open>
  C3. When the view is empty, or no record of the view carries a valid amount (every
  amount is null, undefined or NaN), \<open>stats\<close> is the all-zero record; the count is 0
  too, not the length of the view.
\<close>

theorem C3_degenerate_stats:
  assumes "view = [] \<or>
     (\<forall>r\<in>set view. totalWithTax r = Null \<or> totalWithTax r = Undefined \<or>
        totalWithTax r = Number NaN)"
  shows "stats view =
     \<lparr>totalInvoices = 0, totalAmount = Fin 0, averageAmount = Fin 0, maxAmount = Fin 0,
      minAmount = Fin 0, companyCount = 0, productCount = 0\<rparr>"
proof -
  from assms have "view = [] \<or> validAmounts view = []"
    by (simp add: validAmounts_empty_iff)
  then show ?thesis
    by (auto simp: stats_def zeroStats_def)
qed

theorem C3_degenerate_stats_witness:
  "length allInvalid = 3 \<and>
   stats allInvalid =
     \<lparr>totalInvoices = 0, totalAmount = Fin 0, averageAmount = Fin 0, maxAmount = Fin 0,
      minAmount = Fin 0, companyCount = 0, productCount = 0\<rparr>"
  using C3_degenerate_stats [of allInvalid]
  by (simp add: allInvalid_def sampleInvoice_def)

text \<open>
  C4. For a view whose amounts are 100, 200, NaN, 300 in this order: the total is 600,
  the average is 200 (the total divided by the three valid amounts), the maximum is 300,
  the minimum is 100, and the count is 4.
\<close>

theorem C4_mixed_amounts:
  assumes "map totalWithTax view =
     [Number (Fin 100), Number (Fin 200), Number NaN, Number (Fin 300)]"
  shows "totalAmount (stats view) = Fin 600 \<and> averageAmount (stats view) = Fin 200 \<and>
     maxAmount (stats view) = Fin 300 \<and> minAmount (stats view) = Fin 100 \<and>
     totalInvoices (stats view) = 4"
proof -
  have "length (map totalWithTax view) = 4"
    unfolding assms by simp
  then have len: "length view = 4"
    by simp
  have va: "validAmounts view = [Number (Fin 100), Number (Fin 200), Number (Fin 300)]"
    by (simp add: validAmounts_def assms isNaN_def)
  show ?thesis
    by (simp add: stats_def va len Math_max_def Math_min_def jsmax2_def jsmin2_def)
qed

theorem C4_mixed_amounts_witness:
  "map totalWithTax fourAmounts =
     [Number (Fin 100), Number (Fin 200), Number NaN, Number (Fin 300)] \<and>
   totalAmount (stats fourAmounts) = Fin 600 \<and> averageAmount (stats fourAmounts) = Fin 200 \<and>
   maxAmount (stats fourAmounts) = Fin 300 \<and> minAmount (stats fourAmounts) = Fin 100 \<and>
   totalInvoices (stats fourAmounts) = 4"
proof -
  have h: "map totalWithTax fourAmounts =
     [Number (Fin 100), Number (Fin 200), Number NaN, Number (Fin 300)]"
    by (simp add: fourAmounts_def sampleInvoice_def)
  show ?thesis using h C4_mixed_amounts [OF h] by simp
qed

subsection \<open>The amount range\<close>

text \<open>
  C1, as the code has it. An unset minimum is 0 and an unset maximum is positive infinity.
  When at least one bound is set, a record whose amount is a number passes the amount
  range exactly when the amount lies in the closed interval from the minimum to the
  maximum (for bounds that parse as numbers). A record whose amount is NaN is never
  rejected by the amount range, whatever bounds are set: the block rejects on
  \<^verbatim>\<open>amount < min || amount > max\<close>, and both comparisons are false on NaN. With
  no bound set the block rejects nothing.
\<close>

theorem C1_amount_range:
  "(\<not> truthy (pr_min pr) \<longrightarrow> minPrice pr = Fin 0) \<and>
   (\<not> truthy (pr_max pr) \<longrightarrow> maxPrice pr = PosInf) \<and>
   ((truthy (pr_min pr) \<or> truthy (pr_max pr)) \<and> ToNumber (totalWithTax item) \<noteq> NaN \<and>
    minPrice pr \<noteq> NaN \<and> maxPrice pr \<noteq> NaN \<longrightarrow>
      (\<not> priceRangeRejects pr item \<longleftrightarrow>
         jsle (minPrice pr) (ToNumber (totalWithTax item)) \<and>
         jsle (ToNumber (totalWithTax item)) (maxPrice pr))) \<and>
   (ToNumber (totalWithTax item) = NaN \<longrightarrow> \<not> priceRangeRejects pr item) \<and>
   (\<not> truthy (pr_min pr) \<and> \<not> truthy (pr_max pr) \<longrightarrow> \<not> priceRangeRejects pr item)"
  by (simp add: minPrice_def maxPrice_def priceRangeRejects_def jsle_def jsgt_def)

theorem C1_amount_range_witness:
  "truthy (pr_min minHundred) \<and> \<not> truthy (pr_max minHundred) \<and>
   minPrice minHundred = Fin 100 \<and> maxPrice minHundred = PosInf \<and>
   \<not> priceRangeRejects minHundred (sampleInvoice ''A2'' ''2024-01-06'' (Number (Fin 200))) \<and>
   priceRangeRejects minHundred (sampleInvoice ''A0'' ''2024-01-06'' (Number (Fin 50))) \<and>
   \<not> priceRangeRejects minHundred (sampleInvoice ''A3'' ''2024-01-07'' (Number NaN))"
proof -
  have b: "truthy (pr_min minHundred)" "\<not> truthy (pr_max minHundred)"
    by (simp_all add: minHundred_def truthy_def)
  have m: "minPrice minHundred = Fin 100"
    by (simp add: minPrice_def minHundred_def truthy_def parseFloat_100)
  show ?thesis
    using b m
      C1_amount_range [of minHundred "sampleInvoice ''A2'' ''2024-01-06'' (Number (Fin 200))"]
      C1_amount_range [of minHundred "sampleInvoice ''A0'' ''2024-01-06'' (Number (Fin 50))"]
      C1_amount_range [of minHundred "sampleInvoice ''A3'' ''2024-01-07'' (Number NaN)"]
    by (simp add: sampleInvoice_def)
qed

text \<open>
  C1, counterexample to the reading that a NaN amount is dropped as soon as a bound is
  active: with a minimum of 100 set, the record of \<open>fourAmounts\<close> whose amount is NaN is
  still in the filtered list.
\<close>

theorem C1_nan_amount_counterexample:
  "ToNumber (totalWithTax (sampleInvoice ''A3'' ''2024-01-07'' (Number NaN))) = NaN \<and>
   truthy (pr_min minHundred) \<and>
   sampleInvoice ''A3'' ''2024-01-07'' (Number NaN)
     \<in> set (filteredData (fixedZone 0) (loaded fourAmounts 1\<lparr>priceRange := minHundred\<rparr>))"
  by (simp add: filteredData_filter passes_iff loaded_def initialDashboard_def fourAmounts_def
      sampleInvoice_def minHundred_def truthy_def trim_def dateRangeRejects_def
      priceRangeRejects_def minPrice_def maxPrice_def parseFloat_100 jsgt_def)

subsection \<open>Order of the filtered list\<close>

text \<open>
  C8. The filtered list is a subsequence of the loaded records: every record of it
  occurs in the loaded records, in the same relative order. When every filter slot is
  empty, the filtered list is the list of loaded records.
\<close>

theorem C8_filter_subsequence:
  "subseq (filteredData rt st) (invoiceData st) \<and>
   set (filteredData rt st) \<subseteq> set (invoiceData st) \<and>
   (searchKeyword st = [] \<and> selectedProduct st = [] \<and> selectedBillingCompany st = [] \<and>
    selectedInvoiceCompany st = [] \<and> dateRange st = \<lparr>dr_start = [], dr_end = []\<rparr> \<and>
    priceRange st = \<lparr>pr_min = [], pr_max = []\<rparr> \<longrightarrow>
      filteredData rt st = invoiceData st)"
proof -
  have "passes rt st item"
    if "searchKeyword st = []" "selectedProduct st = []" "selectedBillingCompany st = []"
      "selectedInvoiceCompany st = []" "dateRange st = \<lparr>dr_start = [], dr_end = []\<rparr>"
      "priceRange st = \<lparr>pr_min = [], pr_max = []\<rparr>"
    for item
    using that
    by (simp add: passes_iff truthy_def trim_def dateRangeRejects_def priceRangeRejects_def)
  then show ?thesis
    by (auto simp: filteredData_filter)
qed

theorem C8_filter_subsequence_witness:
  "filteredData (fixedZone 0) (loaded fourAmounts 1) = fourAmounts \<and>
   subseq (filteredData (fixedZone 0) (loaded fourAmounts 1\<lparr>priceRange := minHundred\<rparr>))
     fourAmounts"
  using C8_filter_subsequence [of "fixedZone 0" "loaded fourAmounts 1"]
    C8_filter_subsequence [of "fixedZone 0" "loaded fourAmounts 1\<lparr>priceRange := minHundred\<rparr>"]
  by (simp add: loaded_def initialDashboard_def)

subsection \<open>Records whose time does not parse\<close>

text \<open>
  C10. A record whose time string does not parse as a date is never rejected by the date
  range, whichever of the two bounds are set: it passes the filter exactly when it passes
  with the date range cleared. The callback has no failing path, so the evaluation
  returns a verdict for every record.
\<close>

theorem C10_invalid_date_retained:
  assumes "Date_parse rt (timeStr item) = None"
  shows "\<not> dateRangeRejects rt dr item \<and>
     (passes rt (st\<lparr>dateRange := dr\<rparr>) item \<longleftrightarrow>
      passes rt (st\<lparr>dateRange := \<lparr>dr_start = [], dr_end = []\<rparr>\<rparr>) item)"
proof -
  have a: "\<not> dateRangeRejects rt dr item"
    by (simp add: dateRangeRejects_def assms timeValue_def jsgt_def Let_def)
  have b: "\<not> dateRangeRejects rt \<lparr>dr_start = [], dr_end = []\<rparr> item"
    by (simp add: dateRangeRejects_def truthy_def)
  show ?thesis
    using a b by (simp add: passes_iff)
qed

theorem C10_invalid_date_retained_witness:
  "Date_parse (fixedZone 0) (timeStr undated) = None \<and>
   \<not> dateRangeRejects (fixedZone 0) january undated \<and>
   filteredData (fixedZone 0) (loaded [undated] 1\<lparr>dateRange := january\<rparr>) = [undated]"
proof -
  have h: "Date_parse (fixedZone 0) (timeStr undated) = None"
    by (simp add: undated_def sampleInvoice_def fixedZone_def isoParse_def isoDate_def
        isDigit_def)
  have "passes (fixedZone 0) (loaded [undated] 1\<lparr>dateRange := \<lparr>dr_start = [], dr_end = []\<rparr>\<rparr>)
      undated"
    by (simp add: passes_iff loaded_def initialDashboard_def truthy_def trim_def
        dateRangeRejects_def priceRangeRejects_def)
  with C10_invalid_date_retained [OF h, of january "loaded [undated] 1"] h show ?thesis
    by (simp add: filteredData_filter loaded_def)
qed

subsection \<open>Pagination\<close>

lemma ceiling_div_ten: "\<lceil>real n / real_of_int pageSize\<rceil> = int ((n + 9) div 10)"
proof -
  have "\<lceil>real n / real_of_int pageSize\<rceil> = \<lceil>real_of_int (int n) / real_of_int 10\<rceil>"
    by (simp add: pageSize_def)
  also have "\<dots> = - (- int n div 10)"
    by (rule ceiling_divide_eq_div)
  also have "\<dots> = int ((n + 9) div 10)"
    by linarith
  finally show ?thesis .
qed

lemma filter_less_upt: "filter (\<lambda>i. i < n) [a..<b] = [a..<min b n]"
  by (induction b) auto

lemma map_nth_upt: "b \<le> length xs \<Longrightarrow> map (nth xs) [a..<b] = take (b - a) (drop a xs)"
  by (rule nth_equalityI) auto

lemma Array_slice_nonneg:
  assumes "0 \<le> a" "a \<le> b"
  shows "Array_slice xs a b = map (nth xs) (filter (\<lambda>i. i < length xs) [nat a..<nat b])"
proof -
  have "map (nth xs) [nat a..<min (nat b) (length xs)] =
      take (min (nat b) (length xs) - nat a) (drop (nat a) xs)"
    by (rule map_nth_upt) simp
  moreover have "Array_slice xs a b = take (min (nat b) (length xs) - nat a) (drop (nat a) xs)"
  proof (cases "a \<le> int (length xs)")
    case True
    with assms have "nat (min b (int (length xs)) - a) = min (nat b) (length xs) - nat a"
      by linarith
    with True assms show ?thesis
      by (simp add: Array_slice_def Let_def min_absorb1)
  next
    case False
    with assms show ?thesis
      by (simp add: Array_slice_def Let_def)
  qed
  ultimately show ?thesis
    by (simp add: filter_less_upt)
qed

lemma totalPages_twentyFive: "totalPages rt (loaded twentyFive page) = 3"
  unfolding totalPages_def filteredData_loaded by (simp add: twentyFive_def pageSize_def)

text \<open>
  C5. The number of pages is the ceiling of the filtered count divided by 10, which is 0
  for an empty filtered list. On page \<open>p\<close> (page numbers start at 1) the component
  shows the records of the filtered list at the indices from \<open>(p - 1) * 10\<close> up to,
  not including, \<open>p * 10\<close>, as far as they exist. With 25 filtered records there are 3
  pages and page 3 holds 5 records.
\<close>

theorem C5_pagination:
  "totalPages rt st = \<lceil>real (length (filteredData rt st)) / 10\<rceil> \<and>
   totalPages rt st = int ((length (filteredData rt st) + 9) div 10) \<and>
   (filteredData rt st = [] \<longrightarrow> totalPages rt st = 0) \<and>
   (1 \<le> currentPage st \<longrightarrow>
      currentData rt st =
        map (nth (filteredData rt st))
          (filter (\<lambda>i. i < length (filteredData rt st))
             [nat ((currentPage st - 1) * 10)..<nat (currentPage st * 10)])) \<and>
   (length (filteredData rt st) = 25 \<longrightarrow>
      totalPages rt st = 3 \<and> (currentPage st = 3 \<longrightarrow> length (currentData rt st) = 5))"
proof -
  have tp: "totalPages rt st = int ((length (filteredData rt st) + 9) div 10)"
    by (simp add: totalPages_def ceiling_div_ten)
  have ceil: "totalPages rt st = \<lceil>real (length (filteredData rt st)) / 10\<rceil>"
    by (simp add: totalPages_def pageSize_def)
  have slice: "currentData rt st =
        map (nth (filteredData rt st))
          (filter (\<lambda>i. i < length (filteredData rt st))
             [nat ((currentPage st - 1) * 10)..<nat (currentPage st * 10)])"
    if "1 \<le> currentPage st"
    using that by (simp add: currentData_def pageSize_def Array_slice_nonneg)
  have five: "length (currentData rt st) = 5"
    if "length (filteredData rt st) = 25" "currentPage st = 3"
    using that by (simp add: slice filter_less_upt)
  show ?thesis
    using tp ceil slice five by simp
qed

theorem C5_pagination_witness:
  "length (filteredData (fixedZone 0) (loaded twentyFive 3)) = 25 \<and>
   1 \<le> currentPage (loaded twentyFive 3) \<and>
   totalPages (fixedZone 0) (loaded twentyFive 3) = 3 \<and>
   length (currentData (fixedZone 0) (loaded twentyFive 3)) = 5"
proof -
  have len: "length (filteredData (fixedZone 0) (loaded twentyFive 3)) = 25"
    unfolding filteredData_loaded by (simp add: twentyFive_def)
  have page: "currentPage (loaded twentyFive 3) = 3"
    by (simp add: loaded_def)
  show ?thesis
    using len page C5_pagination [of "fixedZone 0" "loaded twentyFive 3"] by simp
qed

text \<open>
  C6. \<open>handlePageChange\<close> leaves the state as it is when the requested page is below 1
  or above the number of pages, and sets the current page to the requested page
  otherwise. Page 0 and the page after the last one are such requests.
\<close>

theorem C6_handlePageChange:
  "(n < 1 \<or> n > totalPages rt st \<longrightarrow> handlePageChange rt st n = st) \<and>
   (1 \<le> n \<and> n \<le> totalPages rt st \<longrightarrow> handlePageChange rt st n = st\<lparr>currentPage := n\<rparr>) \<and>
   handlePageChange rt st 0 = st \<and>
   handlePageChange rt st (totalPages rt st + 1) = st"
  by (simp add: handlePageChange_def)

theorem C6_handlePageChange_witness:
  "handlePageChange (fixedZone 0) (loaded twentyFive 3) 0 = loaded twentyFive 3 \<and>
   handlePageChange (fixedZone 0) (loaded twentyFive 3) 4 = loaded twentyFive 3 \<and>
   currentPage (handlePageChange (fixedZone 0) (loaded twentyFive 3) 2) = 2"
  using totalPages_twentyFive [of "fixedZone 0" 3]
    C6_handlePageChange [of 0 "fixedZone 0" "loaded twentyFive 3"]
    C6_handlePageChange [of 4 "fixedZone 0" "loaded twentyFive 3"]
    C6_handlePageChange [of 2 "fixedZone 0" "loaded twentyFive 3"]
  by simp

subsection \<open>The page number after a filter change\<close>

lemma filteredData_currentPage [simp]:
  "filteredData rt (st\<lparr>currentPage := p\<rparr>) = filteredData rt st"
  by (simp add: filteredData_filter passes_iff [abs_def])

lemma currentPage_setState [simp]: "currentPage (setState a st) = currentPage st"
  by (cases a) simp_all

text \<open>After a setter that changes a dependency of the memo, the page is 1 when some
  record passes the new filters, and is the page of before when none does.\<close>

lemma dispatch_page:
  assumes "deps (setState a st) \<noteq> deps st"
  shows "currentPage (dispatch rt a st) =
     (if filteredData rt (dispatch rt a st) = [] then currentPage st else 1)"
  using assms by (simp add: dispatch_def rerender_def computeFiltered_page)

text \<open>Every state the component reaches has a page number of at least 1.\<close>

lemma reachable_page: "reachable rt st \<Longrightarrow> 1 \<le> currentPage st"
proof (induction rule: reachable.induct)
  case initial
  show ?case by (simp add: initialDashboard_def)
next
  case (setter st a)
  then show ?case
    by (simp add: dispatch_def rerender_def computeFiltered_page)
next
  case (pageChange st page)
  then show ?case
    by (simp add: handlePageChange_def)
qed

text \<open>
  C2. The specification asks for page 1 after every change of the filters, also when no
  record passes the new filters. The component calls \<^verbatim>\<open>setCurrentPage(1)\<close> inside the
  filter callback, after the early returns, so the call happens only for a record that
  passes. Evaluation: 25 records are loaded and page 3 is shown; the keyword becomes
  \<open>zzz\<close>, which no record matches; the filtered list is empty and the page is still 3.
\<close>

theorem C2_page_kept_on_empty_result:
  "deps (setState (SetSearchKeyword ''zzz'') (loaded twentyFive 3)) \<noteq>
     deps (loaded twentyFive 3) \<and>
   filteredData (fixedZone 0) (loaded twentyFive 3) = twentyFive \<and>
   filteredData (fixedZone 0)
     (dispatch (fixedZone 0) (SetSearchKeyword ''zzz'') (loaded twentyFive 3)) = [] \<and>
   currentPage (dispatch (fixedZone 0) (SetSearchKeyword ''zzz'') (loaded twentyFive 3)) = 3"
proof -
  have d: "deps (setState (SetSearchKeyword ''zzz'') (loaded twentyFive 3)) \<noteq>
      deps (loaded twentyFive 3)"
    by (simp add: deps_def loaded_def initialDashboard_def)
  have e: "filteredData (fixedZone 0)
      (setState (SetSearchKeyword ''zzz'') (loaded twentyFive 3)) = []"
    by (simp add: filteredData_filter passes_iff loaded_def initialDashboard_def
        twentyFive_def sampleInvoice_def truthy_def trim_def isWhiteSpace_def
        matchesKeyword_def toLowerCase_def lowerChar_def)
  have p: "currentPage (setState (SetSearchKeyword ''zzz'') (loaded twentyFive 3)) = 3"
    by (simp add: loaded_def)
  show ?thesis
    using d e p
    by (simp add: dispatch_def rerender_def computeFiltered_page filteredData_loaded)
qed

subsection \<open>The date range\<close>

lemmas iso_defs = isoParse_def isoDate_def isoTime_def twoDigits_def isDigit_def decimal_def
  digitVal_def daysInMonth_def isLeapYear_def daysFromCivil_def msPerDay_def MakeTime_def

text \<open>For a record and bounds that parse, the date range block keeps the record exactly
  when its time value is at least that of the start, if set, and at most that of the end
  after \<^verbatim>\<open>setHours(23, 59, 59, 999)\<close>, if set.\<close>

lemma dateRange_valid:
  assumes "Date_parse rt (timeStr item) = Some t"
    and "Date_parse rt (dr_start dr) = Some s"
    and "Date_setHours rt (Date_parse rt (dr_end dr)) 23 59 59 999 = Some e"
  shows "\<not> dateRangeRejects rt dr item \<longleftrightarrow>
     (truthy (dr_start dr) \<longrightarrow> s \<le> t) \<and> (truthy (dr_end dr) \<longrightarrow> t \<le> e)"
  using assms by (auto simp: dateRangeRejects_def timeValue_def jsgt_def)

lemma parse_start: "isoParse tza ''2024-01-01'' = Some 1704067200000"
  by (simp add: iso_defs)

lemma parse_end: "isoParse tza ''2024-01-31'' = Some 1706659200000"
  by (simp add: iso_defs)

lemma parse_late: "isoParse tza ''2024-01-31T23:00'' = Some (1706742000000 - tza)"
  by (simp add: iso_defs)

lemma parse_early: "isoParse tza ''2024-02-01T00:00'' = Some (1706745600000 - tza)"
  by (simp add: iso_defs)

lemma parse_first: "isoParse tza ''2024-01-01T03:00'' = Some (1704078000000 - tza)"
  by (simp add: iso_defs)

lemma setHours_fixedZone:
  "Date_setHours (fixedZone tza) (Some t) 23 59 59 999 =
     Some ((t + tza) div 86400000 * 86400000 + 86399999 - tza)"
  by (simp add: Date_setHours_def fixedZone_def msPerDay_def MakeTime_def)

text \<open>The end bound \<^verbatim>\<open>2024-01-31\<close> is read as midnight UTC and then moved to the end of
  its local day. At or east of UTC the local day is 31 January; west of UTC it is
  30 January.\<close>

lemma end_of_day_east:
  assumes "0 \<le> tza" "tza < 86400000"
  shows "Date_setHours (fixedZone tza) (Some 1706659200000) 23 59 59 999 =
     Some (1706745599999 - tza)"
proof -
  from assms have "(1706659200000 + tza) div 86400000 = 19753"
    by linarith
  then show ?thesis
    by (simp add: setHours_fixedZone)
qed

lemma end_of_day_west:
  assumes "- 86400000 \<le> tza" "tza < 0"
  shows "Date_setHours (fixedZone tza) (Some 1706659200000) 23 59 59 999 =
     Some (1706659199999 - tza)"
proof -
  from assms have "(1706659200000 + tza) div 86400000 = 19752"
    by linarith
  then show ?thesis
    by (simp add: setHours_fixedZone)
qed

lemmas january_defs = filteredData_filter passes_iff loaded_def initialDashboard_def
  truthy_def trim_def priceRangeRejects_def dateRangeRejects_def january_def lateJanuary_def
  earlyFebruary_def earlyJanuary_def sampleInvoice_def timeValue_def jsgt_def fixedZone_def
  parse_start parse_end parse_late parse_early parse_first

lemma january_east_of_UTC:
  assumes "0 \<le> tza" "tza < 86400000"
  shows "filteredData (fixedZone tza)
      (loaded [lateJanuary, earlyFebruary] 1\<lparr>dateRange := january\<rparr>) = [lateJanuary]"
  using assms by (simp add: january_defs end_of_day_east [unfolded fixedZone_def])

lemma january_west_of_UTC:
  assumes "- 86400000 \<le> tza" "tza < 0"
  shows "filteredData (fixedZone tza)
      (loaded [lateJanuary, earlyFebruary] 1\<lparr>dateRange := january\<rparr>) = []"
  using assms by (simp add: january_defs end_of_day_west [unfolded fixedZone_def])

text \<open>East of UTC the same reading of the start bound cuts the first hours off the
  start day: at UTC+8 a record of 1 January, 03:00 local time, is rejected.\<close>

lemma january_start_east_of_UTC:
  "filteredData (fixedZone 28800000) (loaded [earlyJanuary] 1\<lparr>dateRange := january\<rparr>) = []"
  by (simp add: january_defs)

text \<open>
  C7. The specification asks that the end date be inclusive through its whole calendar day, so
  that with the range 2024-01-01 to 2024-01-31 a record of \<^verbatim>\<open>2024-01-31T23:00\<close> is
  kept. The component reads the bound \<^verbatim>\<open>2024-01-31\<close> as midnight UTC and applies
  \<^verbatim>\<open>setHours\<close> in local time. Evaluation at UTC-5: the end bound becomes 30 January,
  23:59:59.999 local time, and the record of 31 January, 23:00 local time, is rejected.
\<close>

theorem C7_end_date_west_of_UTC:
  "Date_parse (fixedZone (- 18000000)) (timeStr lateJanuary) = Some 1706760000000 \<and>
   Date_setHours (fixedZone (- 18000000))
     (Date_parse (fixedZone (- 18000000)) (dr_end january)) 23 59 59 999 =
       Some 1706677199999 \<and>
   dateRangeRejects (fixedZone (- 18000000)) january lateJanuary \<and>
   filteredData (fixedZone (- 18000000)) (loaded [lateJanuary] 1\<lparr>dateRange := january\<rparr>) = []"
  by (simp add: january_defs Date_setHours_def msPerDay_def MakeTime_def)

subsection \<open>Facets\<close>

lemma set_Set_of [simp]: "set (Set_of xs) = set xs"
  by (simp add: Set_of_def)

lemma distinct_Set_of [simp]: "distinct (Set_of xs)"
  by (simp add: Set_of_def)

lemma facet_set: "set (facet xs) = {s \<in> set xs. s \<noteq> []}"
  by (auto simp: facet_def truthy_def)

lemma facet_sorted: "sorted_wrt (<) (facet xs)"
  by (simp add: facet_def strict_sorted_iff)

lemma invoiceData_dispatch:
  "isFilterAction a \<Longrightarrow> invoiceData (dispatch rt a st) = invoiceData st"
  by (cases a) (simp_all add: dispatch_def rerender_def)

lemma uniqueProducts_mixed: "uniqueProducts (loaded mixedProducts 1) = [''bolt'', ''nut'']"
  by code_simp

text \<open>
  C9. Each facet list (product names, billing companies, invoice companies) holds
  exactly the non-empty values of its field among the loaded records, without
  duplicates and in strictly ascending lexicographic order. The lists are computed from
  the loaded records, not from the filtered list: a change of any filter leaves them as
  they are.
\<close>

theorem C9_facets:
  "set (uniqueProducts st) = {s \<in> productName ` set (invoiceData st). s \<noteq> []} \<and>
   sorted_wrt (<) (uniqueProducts st) \<and>
   set (uniqueBillingCompanies st) = {s \<in> billingCompany ` set (invoiceData st). s \<noteq> []} \<and>
   sorted_wrt (<) (uniqueBillingCompanies st) \<and>
   set (uniqueInvoiceCompanies st) = {s \<in> invoiceCompany ` set (invoiceData st). s \<noteq> []} \<and>
   sorted_wrt (<) (uniqueInvoiceCompanies st) \<and>
   uniqueCompanies st = uniqueInvoiceCompanies st \<and>
   (isFilterAction a \<longrightarrow>
      uniqueProducts (dispatch rt a st) = uniqueProducts st \<and>
      uniqueBillingCompanies (dispatch rt a st) = uniqueBillingCompanies st \<and>
      uniqueInvoiceCompanies (dispatch rt a st) = uniqueInvoiceCompanies st)"
  by (simp add: uniqueProducts_def uniqueBillingCompanies_def uniqueInvoiceCompanies_def
      uniqueCompanies_def facet_set facet_sorted invoiceData_dispatch)

theorem C9_facets_witness:
  "isFilterAction (SetSearchKeyword ''bolt'') \<and>
   uniqueProducts (dispatch (fixedZone 0) (SetSearchKeyword ''bolt'') (loaded mixedProducts 1)) =
     [''bolt'', ''nut'']"
  using C9_facets [of "loaded mixedProducts 1" "SetSearchKeyword ''bolt''" "fixedZone 0"]
  by (simp add: uniqueProducts_mixed)

end
